theory Spec2Isabelle
  imports Main "HOL-Library.Sublist"
begin

section \<open>The toolkit: strings, the "not found" value, regular expressions\<close>

text \<open>
  \<^verbatim>\<open>wxString\<close> is a sequence of characters. \<^verbatim>\<open>wxString::Find\<close> belongs to the
  GUI toolkit; it is modelled by its documented contract: the starting index of the first
  occurrence, or \<^verbatim>\<open>wxNOT_FOUND\<close>. Its result is a C \<^verbatim>\<open>int\<close>, which holds the
  index of every occurrence in a string of at most \<open>INT_MAX\<close> characters. The model
  keeps the index itself; for a first occurrence beyond \<open>INT_MAX\<close> the program holds
  the toolkit's conversion of that index to \<^verbatim>\<open>int\<close> instead, which is where the
  statement of claim C10 fails.
\<close>

type_synonym wxString = string

definition wxNOT_FOUND :: int where
  "wxNOT_FOUND = - 1"

definition INT_MAX :: int where
  "INT_MAX = 2147483647"

definition EDA_PATTERN_NOT_FOUND :: int where
  \<comment> \<open>Modelled from the spec: the header eda_pattern_match.h that declares the
      "not found" value is missing; it is the toolkit's \<^verbatim>\<open>wxNOT_FOUND\<close>.\<close>
  "EDA_PATTERN_NOT_FOUND = wxNOT_FOUND"

fun wxString_Find_from :: "nat \<Rightarrow> wxString \<Rightarrow> wxString \<Rightarrow> int" where
  "wxString_Find_from i [] sub = (if sub = [] then int i else wxNOT_FOUND)"
| "wxString_Find_from i (c # cs) sub =
     (if prefix sub (c # cs) then int i else wxString_Find_from (Suc i) cs sub)"

definition wxString_Find :: "wxString \<Rightarrow> wxString \<Rightarrow> int" where
  \<comment> \<open>\<^verbatim>\<open>int wxString::Find(const wxString& sub) const\<close>\<close>
  "wxString_Find s sub = wxString_Find_from 0 s sub"

fun wxString_FindCh_from :: "nat \<Rightarrow> wxString \<Rightarrow> char \<Rightarrow> int" where
  "wxString_FindCh_from i [] ch = wxNOT_FOUND"
| "wxString_FindCh_from i (c # cs) ch =
     (if c = ch then int i else wxString_FindCh_from (Suc i) cs ch)"

definition wxString_FindCh :: "wxString \<Rightarrow> char \<Rightarrow> int" where
  \<comment> \<open>\<^verbatim>\<open>int wxString::Find(wxUniChar ch) const\<close>\<close>
  "wxString_FindCh s ch = wxString_FindCh_from 0 s ch"

text \<open>
  \<^verbatim>\<open>wxRegEx\<close> is the toolkit's regular-expression class. What a pattern means is not
  part of this program, so the engine is a parameter: \<open>Compile\<close> gives the compiled
  expression, or \<open>None\<close> where \<^verbatim>\<open>wxRegEx::Compile\<close> returns false; \<open>Matches\<close> gives
  the start and length that \<^verbatim>\<open>GetMatch(&start, &len, 0)\<close> reports after a successful
  \<^verbatim>\<open>Matches\<close>, or \<open>None\<close> where \<^verbatim>\<open>Matches\<close> returns false. Both offsets are
  \<^verbatim>\<open>size_t\<close> values. A \<^verbatim>\<open>wxRegEx\<close> object is \<open>'r option\<close>: \<open>None\<close> is an object
  whose \<^verbatim>\<open>IsValid()\<close> is false (never compiled, or the last compilation failed).
\<close>

datatype wxRE_flags = wxRE_EXTENDED | wxRE_ADVANCED | wxRE_BASIC

record 'r wxRegEx_lib =
  Compile :: "wxString \<Rightarrow> wxRE_flags \<Rightarrow> 'r option"
  Matches :: "'r \<Rightarrow> wxString \<Rightarrow> (nat \<times> nat) option"

section \<open>The three pattern matchers\<close>

subsection \<open>EDA_PATTERN_MATCH_SUBSTR\<close>

record EDA_PATTERN_MATCH_SUBSTR =
  m_pattern :: wxString

definition EDA_PATTERN_MATCH_SUBSTR_SetPattern ::
  "wxString \<Rightarrow> EDA_PATTERN_MATCH_SUBSTR \<Rightarrow> bool \<times> EDA_PATTERN_MATCH_SUBSTR" where
  "EDA_PATTERN_MATCH_SUBSTR_SetPattern aPattern self =
     (True, self\<lparr>EDA_PATTERN_MATCH_SUBSTR.m_pattern := aPattern\<rparr>)"

definition EDA_PATTERN_MATCH_SUBSTR_GetPattern :: "EDA_PATTERN_MATCH_SUBSTR \<Rightarrow> wxString" where
  "EDA_PATTERN_MATCH_SUBSTR_GetPattern self = EDA_PATTERN_MATCH_SUBSTR.m_pattern self"

definition EDA_PATTERN_MATCH_SUBSTR_Find :: "EDA_PATTERN_MATCH_SUBSTR \<Rightarrow> wxString \<Rightarrow> int" where
  "EDA_PATTERN_MATCH_SUBSTR_Find self aCandidate =
     (let loc = wxString_Find aCandidate (EDA_PATTERN_MATCH_SUBSTR.m_pattern self)
      in if loc = wxNOT_FOUND then EDA_PATTERN_NOT_FOUND else loc)"

subsection \<open>EDA_PATTERN_MATCH_REGEX\<close>

text \<open>
  \<^verbatim>\<open>SetPattern\<close> also lowers the toolkit's log level around the call of
  \<^verbatim>\<open>Compile\<close> and restores it afterwards (\<^verbatim>\<open>WX_LOGLEVEL_CONTEXT\<close>); the log level is
  the same before and after and no value depends on it, so it is not part of the state.
\<close>

record 'r EDA_PATTERN_MATCH_REGEX =
  m_pattern :: wxString
  m_regex :: "'r option"

definition EDA_PATTERN_MATCH_REGEX_SetPattern ::
  "'r wxRegEx_lib \<Rightarrow> wxString \<Rightarrow> ('r, 'x) EDA_PATTERN_MATCH_REGEX_scheme
     \<Rightarrow> bool \<times> ('r, 'x) EDA_PATTERN_MATCH_REGEX_scheme" where
  "EDA_PATTERN_MATCH_REGEX_SetPattern lib aPattern self =
     (let compiled = Compile lib aPattern wxRE_ADVANCED
      in (compiled \<noteq> None,
          self\<lparr>EDA_PATTERN_MATCH_REGEX.m_pattern := aPattern, m_regex := compiled\<rparr>))"

definition EDA_PATTERN_MATCH_REGEX_GetPattern ::
  "('r, 'x) EDA_PATTERN_MATCH_REGEX_scheme \<Rightarrow> wxString" where
  "EDA_PATTERN_MATCH_REGEX_GetPattern self = EDA_PATTERN_MATCH_REGEX.m_pattern self"

definition EDA_PATTERN_MATCH_REGEX_Find ::
  "'r wxRegEx_lib \<Rightarrow> ('r, 'x) EDA_PATTERN_MATCH_REGEX_scheme \<Rightarrow> wxString \<Rightarrow> int" where
  "EDA_PATTERN_MATCH_REGEX_Find lib self aCandidate =
     (case m_regex self of
        Some re \<Rightarrow>
          (case Matches lib re aCandidate of
             Some (start, len) \<Rightarrow> (if int start > INT_MAX then INT_MAX else int start)
           | None \<Rightarrow> EDA_PATTERN_NOT_FOUND)
      | None \<Rightarrow>
          (let loc = wxString_Find aCandidate (EDA_PATTERN_MATCH_REGEX.m_pattern self)
           in if loc = wxNOT_FOUND then EDA_PATTERN_NOT_FOUND else loc))"

subsection \<open>EDA_PATTERN_MATCH_WILDCARD\<close>

text \<open>The wildcard matcher derives from the regex matcher and adds one field.\<close>

record 'r EDA_PATTERN_MATCH_WILDCARD = "'r EDA_PATTERN_MATCH_REGEX" +
  m_wildcard_pattern :: wxString

definition to_replace :: wxString where
  "to_replace = ''.*+?^${}()|[]/'' @ [CHR 0x5C]"

text \<open>The loop of \<^verbatim>\<open>SetPattern\<close> over the characters of the pattern; \<open>regex\<close> is the
  string built so far.\<close>

fun wildcard_loop :: "wxString \<Rightarrow> wxString \<Rightarrow> wxString" where
  "wildcard_loop [] regex = regex"
| "wildcard_loop (c # rest) regex =
     (if c = CHR ''?'' then wildcard_loop rest (regex @ ''.'')
      else if c = CHR ''*'' then wildcard_loop rest (regex @ ''.*'')
      else if wxString_FindCh to_replace c \<noteq> wxNOT_FOUND
        then wildcard_loop rest ((regex @ [CHR 0x5C]) @ [c])
      else wildcard_loop rest (regex @ [c]))"

definition EDA_PATTERN_MATCH_WILDCARD_SetPattern ::
  "'r wxRegEx_lib \<Rightarrow> wxString \<Rightarrow> 'r EDA_PATTERN_MATCH_WILDCARD
     \<Rightarrow> bool \<times> 'r EDA_PATTERN_MATCH_WILDCARD" where
  "EDA_PATTERN_MATCH_WILDCARD_SetPattern lib aPattern self =
     (let self1 = self\<lparr>m_wildcard_pattern := aPattern\<rparr>;
          regex = wildcard_loop aPattern []
      in EDA_PATTERN_MATCH_REGEX_SetPattern lib regex self1)"

definition EDA_PATTERN_MATCH_WILDCARD_GetPattern :: "'r EDA_PATTERN_MATCH_WILDCARD \<Rightarrow> wxString" where
  "EDA_PATTERN_MATCH_WILDCARD_GetPattern self = m_wildcard_pattern self"

definition EDA_PATTERN_MATCH_WILDCARD_Find ::
  "'r wxRegEx_lib \<Rightarrow> 'r EDA_PATTERN_MATCH_WILDCARD \<Rightarrow> wxString \<Rightarrow> int" where
  "EDA_PATTERN_MATCH_WILDCARD_Find lib self aCandidate =
     EDA_PATTERN_MATCH_REGEX_Find lib self aCandidate"

subsection \<open>The interface EDA_PATTERN_MATCH and its virtual calls\<close>

datatype 'r EDA_PATTERN_MATCH =
    SUBSTR EDA_PATTERN_MATCH_SUBSTR
  | REGEX "'r EDA_PATTERN_MATCH_REGEX"
  | WILDCARD "'r EDA_PATTERN_MATCH_WILDCARD"

fun SetPattern ::
  "'r wxRegEx_lib \<Rightarrow> wxString \<Rightarrow> 'r EDA_PATTERN_MATCH \<Rightarrow> bool \<times> 'r EDA_PATTERN_MATCH" where
  "SetPattern lib aPattern (SUBSTR m) =
     (case EDA_PATTERN_MATCH_SUBSTR_SetPattern aPattern m of (ok, m') \<Rightarrow> (ok, SUBSTR m'))"
| "SetPattern lib aPattern (REGEX m) =
     (case EDA_PATTERN_MATCH_REGEX_SetPattern lib aPattern m of (ok, m') \<Rightarrow> (ok, REGEX m'))"
| "SetPattern lib aPattern (WILDCARD m) =
     (case EDA_PATTERN_MATCH_WILDCARD_SetPattern lib aPattern m of (ok, m') \<Rightarrow> (ok, WILDCARD m'))"

fun GetPattern :: "'r EDA_PATTERN_MATCH \<Rightarrow> wxString" where
  "GetPattern (SUBSTR m) = EDA_PATTERN_MATCH_SUBSTR_GetPattern m"
| "GetPattern (REGEX m) = EDA_PATTERN_MATCH_REGEX_GetPattern m"
| "GetPattern (WILDCARD m) = EDA_PATTERN_MATCH_WILDCARD_GetPattern m"

fun Find :: "'r wxRegEx_lib \<Rightarrow> 'r EDA_PATTERN_MATCH \<Rightarrow> wxString \<Rightarrow> int" where
  "Find lib (SUBSTR m) aCandidate = EDA_PATTERN_MATCH_SUBSTR_Find m aCandidate"
| "Find lib (REGEX m) aCandidate = EDA_PATTERN_MATCH_REGEX_Find lib m aCandidate"
| "Find lib (WILDCARD m) aCandidate = EDA_PATTERN_MATCH_WILDCARD_Find lib m aCandidate"

text \<open>The objects that \<^verbatim>\<open>std::make_unique\<close> default-constructs: an empty pattern and
  a regular expression that is not valid.\<close>

definition new_SUBSTR :: "'r EDA_PATTERN_MATCH" where
  "new_SUBSTR = SUBSTR \<lparr>EDA_PATTERN_MATCH_SUBSTR.m_pattern = []\<rparr>"

definition new_REGEX :: "'r EDA_PATTERN_MATCH" where
  "new_REGEX = REGEX \<lparr>EDA_PATTERN_MATCH_REGEX.m_pattern = [], m_regex = None\<rparr>"

definition new_WILDCARD :: "'r EDA_PATTERN_MATCH" where
  "new_WILDCARD =
     WILDCARD \<lparr>EDA_PATTERN_MATCH_REGEX.m_pattern = [], m_regex = None, m_wildcard_pattern = []\<rparr>"

section \<open>EDA_COMBINED_MATCHER\<close>

record 'r EDA_COMBINED_MATCHER =
  m_pattern :: wxString
  m_matchers :: "'r EDA_PATTERN_MATCH list"

definition AddMatcher ::
  "'r wxRegEx_lib \<Rightarrow> wxString \<Rightarrow> 'r EDA_PATTERN_MATCH \<Rightarrow> 'r EDA_COMBINED_MATCHER
     \<Rightarrow> 'r EDA_COMBINED_MATCHER" where
  "AddMatcher lib aPattern aMatcher self =
     (case SetPattern lib aPattern aMatcher of
        (ok, aMatcher') \<Rightarrow>
          if ok then self\<lparr>m_matchers := m_matchers self @ [aMatcher']\<rparr> else self)"

definition EDA_COMBINED_MATCHER_ctor :: "'r wxRegEx_lib \<Rightarrow> wxString \<Rightarrow> 'r EDA_COMBINED_MATCHER" where
  "EDA_COMBINED_MATCHER_ctor lib aPattern =
     (let self0 = \<lparr>EDA_COMBINED_MATCHER.m_pattern = aPattern, m_matchers = []\<rparr>;
          self1 = AddMatcher lib aPattern new_REGEX self0;
          self2 = AddMatcher lib aPattern new_WILDCARD self1;
          self3 = AddMatcher lib aPattern new_SUBSTR self2
      in self3)"

text \<open>The loop of \<^verbatim>\<open>Find\<close> over \<^verbatim>\<open>m_matchers\<close>; the state is the pair of the two
  output parameters \<^verbatim>\<open>aMatchersTriggered\<close> and \<^verbatim>\<open>aPosition\<close>.\<close>

fun Find_loop ::
  "'r wxRegEx_lib \<Rightarrow> 'r EDA_PATTERN_MATCH list \<Rightarrow> wxString \<Rightarrow> int \<times> int \<Rightarrow> int \<times> int" where
  "Find_loop lib [] aTerm (aMatchersTriggered, aPosition) = (aMatchersTriggered, aPosition)"
| "Find_loop lib (matcher # rest) aTerm (aMatchersTriggered, aPosition) =
     (let local_find = Find lib matcher aTerm
      in if local_find \<noteq> EDA_PATTERN_NOT_FOUND
         then Find_loop lib rest aTerm
                (aMatchersTriggered + 1,
                 if local_find < aPosition \<or> aPosition = EDA_PATTERN_NOT_FOUND
                 then local_find else aPosition)
         else Find_loop lib rest aTerm (aMatchersTriggered, aPosition))"

text \<open>\<^verbatim>\<open>Find\<close> takes the two output parameters by reference: the model takes the values
  they hold at the call and returns the return value with the values they hold at the end.\<close>

definition EDA_COMBINED_MATCHER_Find ::
  "'r wxRegEx_lib \<Rightarrow> 'r EDA_COMBINED_MATCHER \<Rightarrow> wxString \<Rightarrow> int \<times> int \<Rightarrow> bool \<times> int \<times> int" where
  "EDA_COMBINED_MATCHER_Find lib self aTerm out =
     (case out of
        (aMatchersTriggered0, aPosition0) \<Rightarrow>
          (let aPosition1 = EDA_PATTERN_NOT_FOUND;
               aMatchersTriggered1 = 0
           in case Find_loop lib (m_matchers self) aTerm (aMatchersTriggered1, aPosition1) of
                (aMatchersTriggered, aPosition) \<Rightarrow>
                  (aPosition \<noteq> EDA_PATTERN_NOT_FOUND, aMatchersTriggered, aPosition)))"

definition EDA_COMBINED_MATCHER_GetPattern :: "'r EDA_COMBINED_MATCHER \<Rightarrow> wxString" where
  "EDA_COMBINED_MATCHER_GetPattern self = EDA_COMBINED_MATCHER.m_pattern self"

text \<open>The operations of the class, for statements about every sequence of calls.
  \<^verbatim>\<open>Find\<close> and \<^verbatim>\<open>GetPattern\<close> assign no member; \<^verbatim>\<open>AddMatcher\<close> is the only
  one that changes the object.\<close>

datatype 'r COMBINED_OP =
    Op_Find wxString "int \<times> int"
  | Op_GetPattern
  | Op_AddMatcher wxString "'r EDA_PATTERN_MATCH"

fun apply_op :: "'r wxRegEx_lib \<Rightarrow> 'r COMBINED_OP \<Rightarrow> 'r EDA_COMBINED_MATCHER \<Rightarrow> 'r EDA_COMBINED_MATCHER" where
  "apply_op lib (Op_Find aTerm out) self = self"
| "apply_op lib Op_GetPattern self = self"
| "apply_op lib (Op_AddMatcher aPattern aMatcher) self = AddMatcher lib aPattern aMatcher self"


section \<open>PCB_ACTIONS::TranslateLegacyId\<close>

text \<open>
  The case labels of the \<^verbatim>\<open>switch\<close>, in the order of the source. Their numeric
  values are declared in other headers (pcbnew_id.h, id.h), so
  the numbering is a parameter \<open>id_value\<close>; C++ only accepts a \<^verbatim>\<open>switch\<close> whose
  labels have pairwise different values.
\<close>

datatype LEGACY_ID =
    ID_PCB_MODULE_BUTT
  | ID_TRACK_BUTT
  | ID_DIFF_PAIR_BUTT
  | ID_TUNE_SINGLE_TRACK_LEN_BUTT
  | ID_TUNE_DIFF_PAIR_LEN_BUTT
  | ID_TUNE_DIFF_PAIR_SKEW_BUTT
  | ID_MENU_INTERACTIVE_ROUTER_SETTINGS
  | ID_MENU_DIFF_PAIR_DIMENSIONS
  | ID_PCB_ZONES_BUTT
  | ID_PCB_KEEPOUT_AREA_BUTT
  | ID_PCB_ADD_LINE_BUTT
  | ID_MODEDIT_LINE_TOOL
  | ID_PCB_CIRCLE_BUTT
  | ID_MODEDIT_CIRCLE_TOOL
  | ID_PCB_ARC_BUTT
  | ID_MODEDIT_ARC_TOOL
  | ID_PCB_ADD_TEXT_BUTT
  | ID_MODEDIT_TEXT_TOOL
  | ID_PCB_DIMENSION_BUTT
  | ID_PCB_MIRE_BUTT
  | ID_MODEDIT_PAD_TOOL
  | ID_GEN_IMPORT_DXF_FILE
  | ID_MODEDIT_ANCHOR_TOOL
  | ID_PCB_PLACE_GRID_COORD_BUTT
  | ID_MODEDIT_PLACE_GRID_COORD
  | ID_ZOOM_IN
  | ID_ZOOM_OUT
  | ID_ZOOM_PAGE
  | ID_TB_OPTIONS_SHOW_TRACKS_SKETCH
  | ID_TB_OPTIONS_SHOW_PADS_SKETCH
  | ID_TB_OPTIONS_SHOW_VIAS_SKETCH
  | ID_TB_OPTIONS_SHOW_ZONES
  | ID_TB_OPTIONS_SHOW_ZONES_DISABLE
  | ID_TB_OPTIONS_SHOW_ZONES_OUTLINES_ONLY
  | ID_TB_OPTIONS_SHOW_MODULE_EDGE_SKETCH
  | ID_TB_OPTIONS_SHOW_MODULE_TEXT_SKETCH
  | ID_TB_OPTIONS_SHOW_HIGH_CONTRAST_MODE
  | ID_FIND_ITEMS
  | ID_POPUP_PCB_GET_AND_MOVE_MODULE_REQUEST
  | ID_NO_TOOL_SELECTED
  | ID_ZOOM_SELECTION
  | ID_PCB_DELETE_ITEM_BUTT
  | ID_MODEDIT_DELETE_TOOL
  | ID_PCB_PLACE_OFFSET_COORD_BUTT
  | ID_PCB_HIGHLIGHT_BUTT
  | ID_APPEND_FILE
  | ID_PCB_SHOW_1_RATSNEST_BUTT

text \<open>The static \<^verbatim>\<open>TOOL_ACTION\<close> members of \<^verbatim>\<open>PCB_ACTIONS\<close> that the switch
  returns events of (\<^verbatim>\<open>find\<close> is written \<open>find_action\<close>).\<close>

datatype TOOL_ACTION =
    placeModule
  | routerActivateSingle
  | routerActivateDiffPair
  | routerActivateTuneSingleTrace
  | routerActivateTuneDiffPair
  | routerActivateTuneDiffPairSkew
  | routerActivateSettingsDialog
  | routerActivateDpDimensionsDialog
  | drawZone
  | drawKeepout
  | drawLine
  | drawCircle
  | drawArc
  | placeText
  | drawDimension
  | placeTarget
  | placePad
  | placeDXF
  | setAnchor
  | gridSetOrigin
  | zoomInCenter
  | zoomOutCenter
  | zoomFitScreen
  | trackDisplayMode
  | padDisplayMode
  | viaDisplayMode
  | zoneDisplayEnable
  | zoneDisplayDisable
  | zoneDisplayOutlines
  | moduleEdgeOutlines
  | moduleTextOutlines
  | highContrastMode
  | find_action
  | findMove
  | selectionTool
  | zoomTool
  | deleteItemCursor
  | drillOrigin
  | highlightNetCursor
  | appendBoard
  | toBeDone

definition switch_labels :: "LEGACY_ID list" where
  "switch_labels =
     [ID_PCB_MODULE_BUTT,
      ID_TRACK_BUTT,
      ID_DIFF_PAIR_BUTT,
      ID_TUNE_SINGLE_TRACK_LEN_BUTT,
      ID_TUNE_DIFF_PAIR_LEN_BUTT,
      ID_TUNE_DIFF_PAIR_SKEW_BUTT,
      ID_MENU_INTERACTIVE_ROUTER_SETTINGS,
      ID_MENU_DIFF_PAIR_DIMENSIONS,
      ID_PCB_ZONES_BUTT,
      ID_PCB_KEEPOUT_AREA_BUTT,
      ID_PCB_ADD_LINE_BUTT,
      ID_MODEDIT_LINE_TOOL,
      ID_PCB_CIRCLE_BUTT,
      ID_MODEDIT_CIRCLE_TOOL,
      ID_PCB_ARC_BUTT,
      ID_MODEDIT_ARC_TOOL,
      ID_PCB_ADD_TEXT_BUTT,
      ID_MODEDIT_TEXT_TOOL,
      ID_PCB_DIMENSION_BUTT,
      ID_PCB_MIRE_BUTT,
      ID_MODEDIT_PAD_TOOL,
      ID_GEN_IMPORT_DXF_FILE,
      ID_MODEDIT_ANCHOR_TOOL,
      ID_PCB_PLACE_GRID_COORD_BUTT,
      ID_MODEDIT_PLACE_GRID_COORD,
      ID_ZOOM_IN,
      ID_ZOOM_OUT,
      ID_ZOOM_PAGE,
      ID_TB_OPTIONS_SHOW_TRACKS_SKETCH,
      ID_TB_OPTIONS_SHOW_PADS_SKETCH,
      ID_TB_OPTIONS_SHOW_VIAS_SKETCH,
      ID_TB_OPTIONS_SHOW_ZONES,
      ID_TB_OPTIONS_SHOW_ZONES_DISABLE,
      ID_TB_OPTIONS_SHOW_ZONES_OUTLINES_ONLY,
      ID_TB_OPTIONS_SHOW_MODULE_EDGE_SKETCH,
      ID_TB_OPTIONS_SHOW_MODULE_TEXT_SKETCH,
      ID_TB_OPTIONS_SHOW_HIGH_CONTRAST_MODE,
      ID_FIND_ITEMS,
      ID_POPUP_PCB_GET_AND_MOVE_MODULE_REQUEST,
      ID_NO_TOOL_SELECTED,
      ID_ZOOM_SELECTION,
      ID_PCB_DELETE_ITEM_BUTT,
      ID_MODEDIT_DELETE_TOOL,
      ID_PCB_PLACE_OFFSET_COORD_BUTT,
      ID_PCB_HIGHLIGHT_BUTT,
      ID_APPEND_FILE,
      ID_PCB_SHOW_1_RATSNEST_BUTT]"

text \<open>The action whose event each label returns.\<close>

fun switch_case :: "LEGACY_ID \<Rightarrow> TOOL_ACTION" where
  "switch_case ID_PCB_MODULE_BUTT = placeModule"
| "switch_case ID_TRACK_BUTT = routerActivateSingle"
| "switch_case ID_DIFF_PAIR_BUTT = routerActivateDiffPair"
| "switch_case ID_TUNE_SINGLE_TRACK_LEN_BUTT = routerActivateTuneSingleTrace"
| "switch_case ID_TUNE_DIFF_PAIR_LEN_BUTT = routerActivateTuneDiffPair"
| "switch_case ID_TUNE_DIFF_PAIR_SKEW_BUTT = routerActivateTuneDiffPairSkew"
| "switch_case ID_MENU_INTERACTIVE_ROUTER_SETTINGS = routerActivateSettingsDialog"
| "switch_case ID_MENU_DIFF_PAIR_DIMENSIONS = routerActivateDpDimensionsDialog"
| "switch_case ID_PCB_ZONES_BUTT = drawZone"
| "switch_case ID_PCB_KEEPOUT_AREA_BUTT = drawKeepout"
| "switch_case ID_PCB_ADD_LINE_BUTT = drawLine"
| "switch_case ID_MODEDIT_LINE_TOOL = drawLine"
| "switch_case ID_PCB_CIRCLE_BUTT = drawCircle"
| "switch_case ID_MODEDIT_CIRCLE_TOOL = drawCircle"
| "switch_case ID_PCB_ARC_BUTT = drawArc"
| "switch_case ID_MODEDIT_ARC_TOOL = drawArc"
| "switch_case ID_PCB_ADD_TEXT_BUTT = placeText"
| "switch_case ID_MODEDIT_TEXT_TOOL = placeText"
| "switch_case ID_PCB_DIMENSION_BUTT = drawDimension"
| "switch_case ID_PCB_MIRE_BUTT = placeTarget"
| "switch_case ID_MODEDIT_PAD_TOOL = placePad"
| "switch_case ID_GEN_IMPORT_DXF_FILE = placeDXF"
| "switch_case ID_MODEDIT_ANCHOR_TOOL = setAnchor"
| "switch_case ID_PCB_PLACE_GRID_COORD_BUTT = gridSetOrigin"
| "switch_case ID_MODEDIT_PLACE_GRID_COORD = gridSetOrigin"
| "switch_case ID_ZOOM_IN = zoomInCenter"
| "switch_case ID_ZOOM_OUT = zoomOutCenter"
| "switch_case ID_ZOOM_PAGE = zoomFitScreen"
| "switch_case ID_TB_OPTIONS_SHOW_TRACKS_SKETCH = trackDisplayMode"
| "switch_case ID_TB_OPTIONS_SHOW_PADS_SKETCH = padDisplayMode"
| "switch_case ID_TB_OPTIONS_SHOW_VIAS_SKETCH = viaDisplayMode"
| "switch_case ID_TB_OPTIONS_SHOW_ZONES = zoneDisplayEnable"
| "switch_case ID_TB_OPTIONS_SHOW_ZONES_DISABLE = zoneDisplayDisable"
| "switch_case ID_TB_OPTIONS_SHOW_ZONES_OUTLINES_ONLY = zoneDisplayOutlines"
| "switch_case ID_TB_OPTIONS_SHOW_MODULE_EDGE_SKETCH = moduleEdgeOutlines"
| "switch_case ID_TB_OPTIONS_SHOW_MODULE_TEXT_SKETCH = moduleTextOutlines"
| "switch_case ID_TB_OPTIONS_SHOW_HIGH_CONTRAST_MODE = highContrastMode"
| "switch_case ID_FIND_ITEMS = find_action"
| "switch_case ID_POPUP_PCB_GET_AND_MOVE_MODULE_REQUEST = findMove"
| "switch_case ID_NO_TOOL_SELECTED = selectionTool"
| "switch_case ID_ZOOM_SELECTION = zoomTool"
| "switch_case ID_PCB_DELETE_ITEM_BUTT = deleteItemCursor"
| "switch_case ID_MODEDIT_DELETE_TOOL = deleteItemCursor"
| "switch_case ID_PCB_PLACE_OFFSET_COORD_BUTT = drillOrigin"
| "switch_case ID_PCB_HIGHLIGHT_BUTT = highlightNetCursor"
| "switch_case ID_APPEND_FILE = appendBoard"
| "switch_case ID_PCB_SHOW_1_RATSNEST_BUTT = toBeDone"

text \<open>
  \<^verbatim>\<open>TOOL_ACTION::MakeEvent\<close> is declared elsewhere and is a parameter. The switch
  selects the label whose value equals \<open>aId\<close>; with no such label control reaches the
  final \<^verbatim>\<open>return boost::optional<TOOL_EVENT>()\<close>.
\<close>

definition TranslateLegacyId ::
  "(LEGACY_ID \<Rightarrow> int) \<Rightarrow> (TOOL_ACTION \<Rightarrow> 'ev) \<Rightarrow> int \<Rightarrow> 'ev option" where
  "TranslateLegacyId id_value MakeEvent aId =
     (case find (\<lambda>l. id_value l = aId) switch_labels of
        Some l \<Rightarrow> Some (MakeEvent (switch_case l))
      | None \<Rightarrow> None)"

section \<open>The statements of the specification\<close>

text \<open>The matchers that compiled: of the three variants, in the order regex, wildcard,
  substring, those whose \<^verbatim>\<open>SetPattern\<close> returned true, as \<^verbatim>\<open>SetPattern\<close> left them.\<close>

definition compiled_matchers :: "'r wxRegEx_lib \<Rightarrow> wxString \<Rightarrow> 'r EDA_PATTERN_MATCH list" where
  "compiled_matchers lib aPattern =
     map snd (filter fst (map (SetPattern lib aPattern) [new_REGEX, new_WILDCARD, new_SUBSTR]))"

text \<open>The positions that the matchers of a list report for a candidate, without the
  "not found" results.\<close>

definition found_positions :: "'r wxRegEx_lib \<Rightarrow> 'r EDA_PATTERN_MATCH list \<Rightarrow> wxString \<Rightarrow> int list" where
  "found_positions lib ms aTerm =
     filter (\<lambda>p. p \<noteq> EDA_PATTERN_NOT_FOUND) (map (\<lambda>m. Find lib m aTerm) ms)"

text \<open>The translation of one wildcard character, as the specification words it; the
  rules apply in this order.\<close>

definition wildcard_rule :: "char \<Rightarrow> wxString" where
  "wildcard_rule c =
     (if c = CHR ''?'' then ''.''
      else if c = CHR ''*'' then ''.*''
      else if c \<in> set (''.*+?^${}()|[]/'' @ [CHR 0x5C]) then [CHR 0x5C, c]
      else [c])"

section \<open>Sample parameters for running the model\<close>

text \<open>A small regular-expression engine: it refuses the expression \<open>(\<close> and any flag
  but \<^verbatim>\<open>wxRE_ADVANCED\<close>, and matches every other expression as literal text.\<close>

definition literal_lib :: "wxString wxRegEx_lib" where
  "literal_lib =
     \<lparr>Compile = (\<lambda>expr flags. if flags = wxRE_ADVANCED \<and> expr \<noteq> ''('' then Some expr else None),
      Matches = (\<lambda>re text. let loc = wxString_Find text re
                            in if loc = wxNOT_FOUND then None else Some (nat loc, length re))\<rparr>"

text \<open>An engine that compiles nothing, and one that reports every match at offset
  2147483648, the first offset above \<open>INT_MAX\<close>.\<close>

definition refusing_lib :: "unit wxRegEx_lib" where
  "refusing_lib = \<lparr>Compile = (\<lambda>expr flags. None), Matches = (\<lambda>re text. None)\<rparr>"

definition far_lib :: "unit wxRegEx_lib" where
  "far_lib = \<lparr>Compile = (\<lambda>expr flags. Some ()), Matches = (\<lambda>re text. Some (2147483648, 1))\<rparr>"

text \<open>A numbering of the legacy identifiers: the position of the label in the switch.\<close>

definition sample_id_value :: "LEGACY_ID \<Rightarrow> int" where
  "sample_id_value l = int (length (takeWhile (\<lambda>x. x \<noteq> l) switch_labels))"

section \<open>Properties of the toolkit model\<close>

lemma wxString_Find_from_range:
  "wxString_Find_from i s sub = wxNOT_FOUND \<or>
   (int i \<le> wxString_Find_from i s sub \<and> wxString_Find_from i s sub \<le> int i + int (length s))"
  by (induction i s sub rule: wxString_Find_from.induct) (auto simp: wxNOT_FOUND_def)




lemma wxString_Find_range:
  "wxString_Find s sub = wxNOT_FOUND \<or> (0 \<le> wxString_Find s sub \<and> wxString_Find s sub \<le> int (length s))"
  using wxString_Find_from_range [of 0 s sub] by (simp add: wxString_Find_def)


lemma wxString_FindCh_from_NOT_FOUND:
  "wxString_FindCh_from i s ch \<noteq> wxNOT_FOUND \<longleftrightarrow> ch \<in> set s"
  by (induction i s ch rule: wxString_FindCh_from.induct) (auto simp: wxNOT_FOUND_def)

lemma wxString_FindCh_NOT_FOUND: "wxString_FindCh s ch \<noteq> wxNOT_FOUND \<longleftrightarrow> ch \<in> set s"
  by (simp add: wxString_FindCh_def wxString_FindCh_from_NOT_FOUND)

section \<open>The matchers\<close>

lemma SUBSTR_Find_range:
  "EDA_PATTERN_MATCH_SUBSTR_Find self aCandidate = EDA_PATTERN_NOT_FOUND \<or>
   (0 \<le> EDA_PATTERN_MATCH_SUBSTR_Find self aCandidate \<and>
    EDA_PATTERN_MATCH_SUBSTR_Find self aCandidate \<le> int (length aCandidate))"
  using wxString_Find_range [of aCandidate "EDA_PATTERN_MATCH_SUBSTR.m_pattern self"]
  by (auto simp: EDA_PATTERN_MATCH_SUBSTR_Find_def Let_def EDA_PATTERN_NOT_FOUND_def)


lemma REGEX_Find_invalid:
  "m_regex self = None \<Longrightarrow>
   EDA_PATTERN_MATCH_REGEX_Find lib self aCandidate =
   EDA_PATTERN_MATCH_SUBSTR_Find
     \<lparr>EDA_PATTERN_MATCH_SUBSTR.m_pattern = EDA_PATTERN_MATCH_REGEX.m_pattern self\<rparr> aCandidate"
  by (simp add: EDA_PATTERN_MATCH_REGEX_Find_def EDA_PATTERN_MATCH_SUBSTR_Find_def)

lemma REGEX_Find_valid_range:
  "m_regex self = Some re \<Longrightarrow>
   EDA_PATTERN_MATCH_REGEX_Find lib self aCandidate = EDA_PATTERN_NOT_FOUND \<or>
   (0 \<le> EDA_PATTERN_MATCH_REGEX_Find lib self aCandidate \<and>
    EDA_PATTERN_MATCH_REGEX_Find lib self aCandidate \<le> INT_MAX)"
  by (auto simp: EDA_PATTERN_MATCH_REGEX_Find_def INT_MAX_def split: option.splits)

lemma wildcard_loop_concat:
  "wildcard_loop aPattern regex = regex @ concat (map wildcard_rule aPattern)"
proof (induction aPattern arbitrary: regex)
  case Nil
  then show ?case by simp
next
  case (Cons c rest)
  have "wxString_FindCh to_replace c \<noteq> wxNOT_FOUND \<longleftrightarrow> c \<in> set (''.*+?^${}()|[]/'' @ [CHR 0x5C])"
    by (simp only: wxString_FindCh_NOT_FOUND to_replace_def)
  then show ?case by (simp add: Cons wildcard_rule_def)
qed

section \<open>The combined matcher\<close>

lemma Find_loop_general:
  "Find_loop lib ms aTerm (n, p) =
     (let ps = found_positions lib ms aTerm
      in (n + int (length ps),
          if ps = [] then p
          else if p = EDA_PATTERN_NOT_FOUND then Min (set ps) else min p (Min (set ps))))"
proof (induction ms arbitrary: n p)
  case Nil
  then show ?case by (simp add: found_positions_def)
next
  case (Cons m ms)
  let ?x = "Find lib m aTerm"
  let ?ps = "found_positions lib ms aTerm"
  show ?case
  proof (cases "?x = EDA_PATTERN_NOT_FOUND")
    case True
    then have "found_positions lib (m # ms) aTerm = ?ps" by (simp add: found_positions_def)
    with True show ?thesis by (simp add: Cons Let_def)
  next
    case False
    then have ps: "found_positions lib (m # ms) aTerm = ?x # ?ps" by (simp add: found_positions_def)
    show ?thesis
    proof (cases "?ps = []")
      case True
      with False ps show ?thesis by (auto simp: Cons Let_def min_def)
    next
      case ne: False
      then have "Min (set (?x # ?ps)) = min ?x (Min (set ?ps))" by simp
      with False ps ne show ?thesis by (auto simp: Cons Let_def min_def)
    qed
  qed
qed

lemma combined_Find_eq:
  "EDA_COMBINED_MATCHER_Find lib self aTerm out =
     (let ps = found_positions lib (m_matchers self) aTerm
      in (ps \<noteq> [], int (length ps), if ps = [] then EDA_PATTERN_NOT_FOUND else Min (set ps)))"
proof -
  let ?ps = "found_positions lib (m_matchers self) aTerm"
  have "?ps \<noteq> [] \<Longrightarrow> Min (set ?ps) \<noteq> EDA_PATTERN_NOT_FOUND"
  proof
    assume ne: "?ps \<noteq> []" and "Min (set ?ps) = EDA_PATTERN_NOT_FOUND"
    moreover from ne have "Min (set ?ps) \<in> set ?ps" by (intro Min_in) auto
    ultimately show False by (simp add: found_positions_def)
  qed
  then show ?thesis
    by (cases out) (auto simp: EDA_COMBINED_MATCHER_Find_def Find_loop_general Let_def)
qed

lemma AddMatcher_matchers:
  "m_matchers (AddMatcher lib aPattern aMatcher self) =
     m_matchers self @ map snd (filter fst [SetPattern lib aPattern aMatcher])"
  by (simp add: AddMatcher_def split: prod.splits)

lemma ctor_matchers:
  "m_matchers (EDA_COMBINED_MATCHER_ctor lib aPattern) = compiled_matchers lib aPattern"
  by (simp add: EDA_COMBINED_MATCHER_ctor_def Let_def AddMatcher_matchers compiled_matchers_def)



text \<open>The definitions that running the model on a concrete input unfolds.\<close>

lemmas run_defs =
  EDA_COMBINED_MATCHER_Find_def EDA_COMBINED_MATCHER_ctor_def AddMatcher_def
  new_REGEX_def new_WILDCARD_def new_SUBSTR_def compiled_matchers_def found_positions_def
  EDA_PATTERN_MATCH_SUBSTR_SetPattern_def EDA_PATTERN_MATCH_REGEX_SetPattern_def
  EDA_PATTERN_MATCH_WILDCARD_SetPattern_def EDA_PATTERN_MATCH_SUBSTR_Find_def
  EDA_PATTERN_MATCH_REGEX_Find_def EDA_PATTERN_MATCH_WILDCARD_Find_def
  EDA_PATTERN_MATCH_SUBSTR_GetPattern_def EDA_PATTERN_MATCH_REGEX_GetPattern_def
  EDA_PATTERN_MATCH_WILDCARD_GetPattern_def
  literal_lib_def refusing_lib_def far_lib_def wxString_Find_def wxString_FindCh_def to_replace_def
  wxNOT_FOUND_def EDA_PATTERN_NOT_FOUND_def INT_MAX_def Let_def





lemma Find_range:
  "Find lib m aCandidate = EDA_PATTERN_NOT_FOUND \<or>
   (0 \<le> Find lib m aCandidate \<and>
    (Find lib m aCandidate \<le> INT_MAX \<or> Find lib m aCandidate \<le> int (length aCandidate)))"
proof (cases m)
  case (SUBSTR s)
  then show ?thesis using SUBSTR_Find_range [of s aCandidate] by auto
next
  case (REGEX r)
  show ?thesis
  proof (cases "m_regex r")
    case None
    then show ?thesis
      using SUBSTR_Find_range [of "\<lparr>EDA_PATTERN_MATCH_SUBSTR.m_pattern = EDA_PATTERN_MATCH_REGEX.m_pattern r\<rparr>" aCandidate]
      by (auto simp: REGEX REGEX_Find_invalid)
  next
    case (Some re)
    then show ?thesis using REGEX_Find_valid_range [of r re lib aCandidate] by (auto simp: REGEX)
  qed
next
  case (WILDCARD w)
  show ?thesis
  proof (cases "m_regex w")
    case None
    then show ?thesis
      using SUBSTR_Find_range [of "\<lparr>EDA_PATTERN_MATCH_SUBSTR.m_pattern = EDA_PATTERN_MATCH_REGEX.m_pattern w\<rparr>" aCandidate]
      by (auto simp: WILDCARD REGEX_Find_invalid EDA_PATTERN_MATCH_WILDCARD_Find_def)
  next
    case (Some re)
    then show ?thesis using REGEX_Find_valid_range [of w re lib aCandidate]
      by (auto simp: WILDCARD EDA_PATTERN_MATCH_WILDCARD_Find_def)
  qed
qed

lemma switch_labels_all: "l \<in> set switch_labels"
  by (cases l) (simp_all add: switch_labels_def)

lemma find_distinct:
  "distinct (map f xs) \<Longrightarrow> x \<in> set xs \<Longrightarrow> find (\<lambda>y. f y = f x) xs = Some x"
  by (induction xs) (auto simp: image_iff)

lemma sample_distinct: "distinct (map sample_id_value switch_labels)"
  by (simp add: sample_id_value_def switch_labels_def)

lemma wxString_Find_from_replicate:
  "a \<noteq> b \<Longrightarrow> wxString_Find_from i (replicate n a @ [b]) [b] = int (i + n)"
  by (induction n arbitrary: i) simp_all

lemma wxString_Find_replicate:
  "a \<noteq> b \<Longrightarrow> wxString_Find (replicate n a @ [b]) [b] = int n"
  using wxString_Find_from_replicate [of a b 0 n] by (simp add: wxString_Find_def)

text \<open>What holds of the results of \<^verbatim>\<open>Find\<close>: the regex path clamps the start offset, so
  with a valid expression the result is \<^verbatim>\<open>EDA_PATTERN_NOT_FOUND\<close> or lies between 0 and
  \<open>INT_MAX\<close>; the other paths return the index of \<^verbatim>\<open>wxString::Find\<close> as it is.\<close>

lemma Find_clamped_or_indexed:
  "(m_regex self = Some re \<and> Matches lib re aCandidate = Some (start, len) \<longrightarrow>
      EDA_PATTERN_MATCH_REGEX_Find lib self aCandidate =
        (if int start > INT_MAX then INT_MAX else int start)) \<and>
   (m_regex self = Some re \<longrightarrow>
      EDA_PATTERN_MATCH_REGEX_Find lib self aCandidate = EDA_PATTERN_NOT_FOUND \<or>
      (0 \<le> EDA_PATTERN_MATCH_REGEX_Find lib self aCandidate \<and>
       EDA_PATTERN_MATCH_REGEX_Find lib self aCandidate \<le> INT_MAX)) \<and>
   (Find lib m aCandidate = EDA_PATTERN_NOT_FOUND \<or>
    (0 \<le> Find lib m aCandidate \<and>
     (Find lib m aCandidate \<le> INT_MAX \<or> Find lib m aCandidate \<le> int (length aCandidate)))) \<and>
   (int (length aCandidate) \<le> INT_MAX \<longrightarrow>
      Find lib m aCandidate = EDA_PATTERN_NOT_FOUND \<or>
      (0 \<le> Find lib m aCandidate \<and> Find lib m aCandidate \<le> INT_MAX))"
proof (intro conjI impI)
  assume "m_regex self = Some re \<and> Matches lib re aCandidate = Some (start, len)"
  then show "EDA_PATTERN_MATCH_REGEX_Find lib self aCandidate =
        (if int start > INT_MAX then INT_MAX else int start)"
    by (simp add: EDA_PATTERN_MATCH_REGEX_Find_def)
next
  assume "m_regex self = Some re"
  then show "EDA_PATTERN_MATCH_REGEX_Find lib self aCandidate = EDA_PATTERN_NOT_FOUND \<or>
      (0 \<le> EDA_PATTERN_MATCH_REGEX_Find lib self aCandidate \<and>
       EDA_PATTERN_MATCH_REGEX_Find lib self aCandidate \<le> INT_MAX)"
    by (rule REGEX_Find_valid_range)
next
  show "Find lib m aCandidate = EDA_PATTERN_NOT_FOUND \<or>
    (0 \<le> Find lib m aCandidate \<and>
     (Find lib m aCandidate \<le> INT_MAX \<or> Find lib m aCandidate \<le> int (length aCandidate)))"
    by (rule Find_range)
next
  assume "int (length aCandidate) \<le> INT_MAX"
  then show "Find lib m aCandidate = EDA_PATTERN_NOT_FOUND \<or>
      (0 \<le> Find lib m aCandidate \<and> Find lib m aCandidate \<le> INT_MAX)"
    using Find_range [of lib m aCandidate] by linarith
qed

section \<open>The claims\<close>

text \<open>
  Claim C1. For every pattern and every candidate, \<^verbatim>\<open>EDA_COMBINED_MATCHER::Find\<close> on
  the matcher built from the pattern sets the output position to the minimum of the
  positions found by the matchers that compiled (those of regex, wildcard and substring
  whose \<^verbatim>\<open>SetPattern\<close> returned true in the constructor), sets it to
  \<^verbatim>\<open>EDA_PATTERN_NOT_FOUND\<close> when none of them finds the pattern, and returns true
  exactly when one of them does. The values the output parameters held before play no role.
\<close>

theorem combined_Find_minimum:
  "(case EDA_COMBINED_MATCHER_Find lib (EDA_COMBINED_MATCHER_ctor lib aPattern) aTerm out of
      (ret, aMatchersTriggered, aPosition) \<Rightarrow>
        (let ps = found_positions lib (compiled_matchers lib aPattern) aTerm
         in aPosition = (if ps = [] then EDA_PATTERN_NOT_FOUND else Min (set ps)) \<and>
            ret = (\<exists>m \<in> set (compiled_matchers lib aPattern).
                     Find lib m aTerm \<noteq> EDA_PATTERN_NOT_FOUND)))"
proof -
  have "found_positions lib (compiled_matchers lib aPattern) aTerm \<noteq> [] \<longleftrightarrow>
        (\<exists>m \<in> set (compiled_matchers lib aPattern). Find lib m aTerm \<noteq> EDA_PATTERN_NOT_FOUND)"
    by (auto simp: found_positions_def filter_empty_conv)
  then show ?thesis
    by (simp add: combined_Find_eq ctor_matchers Let_def)
qed


theorem combined_Find_minimum_witness:
  "EDA_COMBINED_MATCHER_Find literal_lib (EDA_COMBINED_MATCHER_ctor literal_lib ''a?'') ''xa.ya?'' (7, 7)
     = (True, 3, 1) \<and>
   found_positions literal_lib (compiled_matchers literal_lib ''a?'') ''xa.ya?'' = [4, 1, 4]"
  using combined_Find_minimum [of literal_lib "''a?''" "''xa.ya?''" "(7, 7)"]
  by (simp add: run_defs)

text \<open>
  Claim C2. When \<^verbatim>\<open>SetPattern\<close> of the regex or of the wildcard matcher returns false,
  \<^verbatim>\<open>AddMatcher\<close> leaves the combined matcher as it was: the matcher is not added and
  nothing else is reported. \<^verbatim>\<open>EDA_PATTERN_MATCH_SUBSTR::SetPattern\<close> returns true for
  every pattern, so \<^verbatim>\<open>AddMatcher\<close> appends the substring matcher, and the list built
  by the constructor always ends with the substring matcher for the pattern.
\<close>

theorem AddMatcher_skips_uncompiled:
  "(\<not> fst (EDA_PATTERN_MATCH_REGEX_SetPattern lib aPattern r) \<longrightarrow>
      AddMatcher lib aPattern (REGEX r) self = self) \<and>
   (\<not> fst (EDA_PATTERN_MATCH_WILDCARD_SetPattern lib aPattern w) \<longrightarrow>
      AddMatcher lib aPattern (WILDCARD w) self = self) \<and>
   fst (EDA_PATTERN_MATCH_SUBSTR_SetPattern aPattern s) \<and>
   AddMatcher lib aPattern (SUBSTR s) self =
     self\<lparr>m_matchers := m_matchers self @ [SUBSTR \<lparr>EDA_PATTERN_MATCH_SUBSTR.m_pattern = aPattern\<rparr>]\<rparr> \<and>
   last (m_matchers (EDA_COMBINED_MATCHER_ctor lib aPattern)) =
     SUBSTR \<lparr>EDA_PATTERN_MATCH_SUBSTR.m_pattern = aPattern\<rparr>"
  by (auto simp: AddMatcher_def EDA_PATTERN_MATCH_SUBSTR_SetPattern_def
      EDA_COMBINED_MATCHER_ctor_def Let_def new_SUBSTR_def split: prod.splits)

theorem AddMatcher_skips_uncompiled_witness:
  "\<not> fst (EDA_PATTERN_MATCH_REGEX_SetPattern literal_lib ''(''
           \<lparr>EDA_PATTERN_MATCH_REGEX.m_pattern = [], m_regex = None\<rparr>) \<and>
   AddMatcher literal_lib ''(''
     (REGEX \<lparr>EDA_PATTERN_MATCH_REGEX.m_pattern = [], m_regex = None\<rparr>)
     \<lparr>EDA_COMBINED_MATCHER.m_pattern = ''('', m_matchers = []\<rparr> =
     \<lparr>EDA_COMBINED_MATCHER.m_pattern = ''('', m_matchers = []\<rparr> \<and>
   \<not> fst (EDA_PATTERN_MATCH_WILDCARD_SetPattern refusing_lib ''(''
           \<lparr>EDA_PATTERN_MATCH_REGEX.m_pattern = [], m_regex = None, m_wildcard_pattern = []\<rparr>) \<and>
   AddMatcher refusing_lib ''(''
     (WILDCARD \<lparr>EDA_PATTERN_MATCH_REGEX.m_pattern = [], m_regex = None, m_wildcard_pattern = []\<rparr>)
     \<lparr>EDA_COMBINED_MATCHER.m_pattern = ''('', m_matchers = []\<rparr> =
     \<lparr>EDA_COMBINED_MATCHER.m_pattern = ''('', m_matchers = []\<rparr> \<and>
   m_matchers (EDA_COMBINED_MATCHER_ctor literal_lib ''('') =
     [WILDCARD \<lparr>EDA_PATTERN_MATCH_REGEX.m_pattern = [CHR 0x5C, CHR ''(''],
                m_regex = Some [CHR 0x5C, CHR ''(''], m_wildcard_pattern = ''(''\<rparr>,
      SUBSTR \<lparr>EDA_PATTERN_MATCH_SUBSTR.m_pattern = ''(''\<rparr>] \<and>
   m_matchers (EDA_COMBINED_MATCHER_ctor refusing_lib ''('') =
     [SUBSTR \<lparr>EDA_PATTERN_MATCH_SUBSTR.m_pattern = ''(''\<rparr>]"
  using AddMatcher_skips_uncompiled [where lib = literal_lib and aPattern = "''(''"
          and r = "\<lparr>EDA_PATTERN_MATCH_REGEX.m_pattern = [], m_regex = None\<rparr>"
          and self = "\<lparr>EDA_COMBINED_MATCHER.m_pattern = ''('', m_matchers = []\<rparr>"]
        AddMatcher_skips_uncompiled [where lib = refusing_lib and aPattern = "''(''"
          and w = "\<lparr>EDA_PATTERN_MATCH_REGEX.m_pattern = [], m_regex = None,
                    m_wildcard_pattern = []\<rparr>"
          and self = "\<lparr>EDA_COMBINED_MATCHER.m_pattern = ''('', m_matchers = []\<rparr>"]
  by (simp add: run_defs)

text \<open>
  Claim C3. \<^verbatim>\<open>EDA_PATTERN_MATCH_WILDCARD::SetPattern\<close> translates the pattern character
  by character: \<open>?\<close> becomes \<open>.\<close>, \<open>*\<close> becomes \<open>.*\<close>, any other character of
  the set \<open>.*+?^${}()|[]/\<close> with the backslash is emitted after a backslash, and every remaining
  character is copied. The translation is compiled with \<^verbatim>\<open>wxRE_ADVANCED\<close> and
  \<^verbatim>\<open>SetPattern\<close> returns whether that compilation succeeded; the object keeps the
  wildcard pattern, the translation and the compiled expression.
\<close>

theorem WILDCARD_SetPattern_translation:
  "wildcard_loop aPattern [] = concat (map wildcard_rule aPattern) \<and>
   EDA_PATTERN_MATCH_WILDCARD_SetPattern lib aPattern self =
     (Compile lib (concat (map wildcard_rule aPattern)) wxRE_ADVANCED \<noteq> None,
      self\<lparr>EDA_PATTERN_MATCH_REGEX.m_pattern := concat (map wildcard_rule aPattern),
           m_regex := Compile lib (concat (map wildcard_rule aPattern)) wxRE_ADVANCED,
           m_wildcard_pattern := aPattern\<rparr>)"
  by (simp add: wildcard_loop_concat EDA_PATTERN_MATCH_WILDCARD_SetPattern_def
      EDA_PATTERN_MATCH_REGEX_SetPattern_def Let_def)

theorem WILDCARD_SetPattern_translation_witness:
  "wildcard_loop ''a?b*.c(d'' [] = ''a.b.*'' @ [CHR 0x5C] @ ''.c'' @ [CHR 0x5C] @ ''(d''"
  using WILDCARD_SetPattern_translation [of "''a?b*.c(d''" literal_lib
     "\<lparr>EDA_PATTERN_MATCH_REGEX.m_pattern = [], m_regex = None, m_wildcard_pattern = []\<rparr>"]
  by (simp add: wildcard_rule_def)

text \<open>
  Claim C4. The constructor calls \<^verbatim>\<open>AddMatcher\<close> exactly three times, for a regex, a
  wildcard and a substring matcher in this order, so that the matcher list holds, in this
  order, those of the three whose \<^verbatim>\<open>SetPattern\<close> returned true. For every combined
  matcher and candidate, \<^verbatim>\<open>Find\<close> leaves in \<^verbatim>\<open>aMatchersTriggered\<close> the number of
  registered matchers whose own \<^verbatim>\<open>Find\<close> did not return \<^verbatim>\<open>EDA_PATTERN_NOT_FOUND\<close>.
\<close>

theorem ctor_three_variants_and_count:
  "EDA_COMBINED_MATCHER_ctor lib aPattern =
     fold (AddMatcher lib aPattern) [new_REGEX, new_WILDCARD, new_SUBSTR]
       \<lparr>EDA_COMBINED_MATCHER.m_pattern = aPattern, m_matchers = []\<rparr> \<and>
   m_matchers (EDA_COMBINED_MATCHER_ctor lib aPattern) = compiled_matchers lib aPattern \<and>
   fst (snd (EDA_COMBINED_MATCHER_Find lib self aTerm out)) =
     int (length (filter (\<lambda>m. Find lib m aTerm \<noteq> EDA_PATTERN_NOT_FOUND) (m_matchers self)))"
proof -
  have "length (found_positions lib (m_matchers self) aTerm) =
        length (filter (\<lambda>m. Find lib m aTerm \<noteq> EDA_PATTERN_NOT_FOUND) (m_matchers self))"
    by (simp add: found_positions_def filter_map comp_def)
  then have "fst (snd (EDA_COMBINED_MATCHER_Find lib self aTerm out)) =
     int (length (filter (\<lambda>m. Find lib m aTerm \<noteq> EDA_PATTERN_NOT_FOUND) (m_matchers self)))"
    by (simp add: combined_Find_eq Let_def)
  moreover have "EDA_COMBINED_MATCHER_ctor lib aPattern =
     fold (AddMatcher lib aPattern) [new_REGEX, new_WILDCARD, new_SUBSTR]
       \<lparr>EDA_COMBINED_MATCHER.m_pattern = aPattern, m_matchers = []\<rparr>"
    by (simp add: EDA_COMBINED_MATCHER_ctor_def Let_def)
  ultimately show ?thesis
    using ctor_matchers [of lib aPattern] by blast
qed

theorem ctor_three_variants_and_count_witness:
  "m_matchers (EDA_COMBINED_MATCHER_ctor literal_lib ''('') =
     [WILDCARD \<lparr>EDA_PATTERN_MATCH_REGEX.m_pattern = [CHR 0x5C, CHR ''(''],
                m_regex = Some [CHR 0x5C, CHR ''(''], m_wildcard_pattern = ''(''\<rparr>,
      SUBSTR \<lparr>EDA_PATTERN_MATCH_SUBSTR.m_pattern = ''(''\<rparr>] \<and>
   fst (snd (EDA_COMBINED_MATCHER_Find literal_lib (EDA_COMBINED_MATCHER_ctor literal_lib ''('')
               ''f(x)'' (0, 0))) = 1"
  using ctor_three_variants_and_count [of literal_lib "''(''"
          "EDA_COMBINED_MATCHER_ctor literal_lib ''(''" "''f(x)''" "(0, 0)"]
  by (simp add: run_defs)

text \<open>
  Claim C5. \<^verbatim>\<open>PCB_ACTIONS::TranslateLegacyId\<close> is a flat lookup: its result is the
  entry for \<open>aId\<close> in the table that pairs the value of each case label with the event of
  the label's action, so it depends on \<open>aId\<close> alone. With the labels' values pairwise
  different, as C++ demands of a switch, every listed identifier gives the event of its
  action (\<^verbatim>\<open>ID_PCB_MODULE_BUTT\<close> that of \<^verbatim>\<open>placeModule\<close>, \<^verbatim>\<open>ID_TRACK_BUTT\<close> that of
  \<^verbatim>\<open>routerActivateSingle\<close>), and an integer that is the value of no label gives the
  empty optional.
\<close>

theorem TranslateLegacyId_lookup:
  "TranslateLegacyId id_value MakeEvent aId =
     map_of (map (\<lambda>l. (id_value l, MakeEvent (switch_case l))) switch_labels) aId \<and>
   (distinct (map id_value switch_labels) \<longrightarrow>
      TranslateLegacyId id_value MakeEvent (id_value l) = Some (MakeEvent (switch_case l)) \<and>
      TranslateLegacyId id_value MakeEvent (id_value ID_PCB_MODULE_BUTT) =
        Some (MakeEvent placeModule) \<and>
      TranslateLegacyId id_value MakeEvent (id_value ID_TRACK_BUTT) =
        Some (MakeEvent routerActivateSingle)) \<and>
   ((\<forall>l. id_value l \<noteq> aId) \<longrightarrow> TranslateLegacyId id_value MakeEvent aId = None)"
proof -
  have "(case find (\<lambda>l. id_value l = aId) xs of
          Some l \<Rightarrow> Some (MakeEvent (switch_case l)) | None \<Rightarrow> None) =
        map_of (map (\<lambda>l. (id_value l, MakeEvent (switch_case l))) xs) aId" for xs
    by (induction xs) auto
  then have a: "TranslateLegacyId id_value MakeEvent aId =
     map_of (map (\<lambda>l. (id_value l, MakeEvent (switch_case l))) switch_labels) aId"
    by (simp add: TranslateLegacyId_def)
  have b: "TranslateLegacyId id_value MakeEvent (id_value k) = Some (MakeEvent (switch_case k))"
    if "distinct (map id_value switch_labels)" for k
    using find_distinct [OF that switch_labels_all [of k]] by (simp add: TranslateLegacyId_def)
  have c: "TranslateLegacyId id_value MakeEvent aId = None" if "\<forall>l. id_value l \<noteq> aId"
  proof -
    from that have "find (\<lambda>l. id_value l = aId) switch_labels = None"
      by (simp add: find_None_iff)
    then show ?thesis by (simp add: TranslateLegacyId_def)
  qed
  from a b [of l] b [of ID_PCB_MODULE_BUTT] b [of ID_TRACK_BUTT] c show ?thesis by simp
qed

theorem TranslateLegacyId_lookup_witness:
  "distinct (map sample_id_value switch_labels) \<and>
   sample_id_value ID_MODEDIT_LINE_TOOL = 11 \<and>
   TranslateLegacyId sample_id_value id 11 = Some drawLine \<and>
   TranslateLegacyId sample_id_value id 0 = Some placeModule \<and>
   (\<forall>l. sample_id_value l \<noteq> 99) \<and>
   TranslateLegacyId sample_id_value id 99 = None"
proof -
  have far: "\<forall>l. sample_id_value l \<noteq> 99"
  proof
    fix l
    have "length (takeWhile (\<lambda>x. x \<noteq> l) switch_labels) \<le> length switch_labels"
      by (rule length_takeWhile_le)
    then show "sample_id_value l \<noteq> 99"
      by (simp add: sample_id_value_def switch_labels_def)
  qed
  have v: "sample_id_value ID_MODEDIT_LINE_TOOL = 11" "sample_id_value ID_PCB_MODULE_BUTT = 0"
    by (simp_all add: sample_id_value_def switch_labels_def)
  note t = TranslateLegacyId_lookup [of sample_id_value id 99 ID_MODEDIT_LINE_TOOL]
  from t far have none: "TranslateLegacyId sample_id_value id 99 = None"
    by blast
  from t sample_distinct
  have "TranslateLegacyId sample_id_value id (sample_id_value ID_MODEDIT_LINE_TOOL) =
          Some (id (switch_case ID_MODEDIT_LINE_TOOL))"
    and "TranslateLegacyId sample_id_value id (sample_id_value ID_PCB_MODULE_BUTT) =
          Some (id placeModule)"
    by blast+
  with v have "TranslateLegacyId sample_id_value id 11 = Some drawLine"
    and "TranslateLegacyId sample_id_value id 0 = Some placeModule"
    by simp_all
  with far v sample_distinct none show ?thesis by blast
qed

text \<open>
  Claim C6. For each matcher variant, \<^verbatim>\<open>GetPattern\<close> after \<^verbatim>\<open>SetPattern(p)\<close>
  returns \<open>p\<close>, whether or not the pattern compiled. For the wildcard variant this is
  the wildcard string; the translated regular expression is what the \<^verbatim>\<open>m_pattern\<close>
  field of its regex base holds.
\<close>

theorem GetPattern_after_SetPattern:
  "GetPattern (snd (SetPattern lib p m)) = p \<and>
   EDA_PATTERN_MATCH_SUBSTR_GetPattern (snd (EDA_PATTERN_MATCH_SUBSTR_SetPattern p s)) = p \<and>
   EDA_PATTERN_MATCH_REGEX_GetPattern (snd (EDA_PATTERN_MATCH_REGEX_SetPattern lib p r)) = p \<and>
   EDA_PATTERN_MATCH_WILDCARD_GetPattern (snd (EDA_PATTERN_MATCH_WILDCARD_SetPattern lib p w)) = p \<and>
   EDA_PATTERN_MATCH_REGEX.m_pattern (snd (EDA_PATTERN_MATCH_WILDCARD_SetPattern lib p w)) =
     wildcard_loop p []"
  by (cases m)
     (simp_all add: EDA_PATTERN_MATCH_SUBSTR_SetPattern_def EDA_PATTERN_MATCH_REGEX_SetPattern_def
        EDA_PATTERN_MATCH_WILDCARD_SetPattern_def EDA_PATTERN_MATCH_SUBSTR_GetPattern_def
        EDA_PATTERN_MATCH_REGEX_GetPattern_def EDA_PATTERN_MATCH_WILDCARD_GetPattern_def Let_def)

theorem GetPattern_after_SetPattern_witness:
  "GetPattern (snd (SetPattern literal_lib ''a*'' new_WILDCARD)) = ''a*'' \<and>
   snd (SetPattern literal_lib ''a*'' new_WILDCARD) =
     WILDCARD \<lparr>EDA_PATTERN_MATCH_REGEX.m_pattern = ''a.*'', m_regex = Some ''a.*'',
               m_wildcard_pattern = ''a*''\<rparr>"
  using GetPattern_after_SetPattern [of literal_lib "''a*''" new_WILDCARD]
  by (simp add: run_defs)

text \<open>
  Claim C7. \<^verbatim>\<open>EDA_COMBINED_MATCHER::Find\<close> is deterministic: its return value and both
  outputs are the same whatever the output parameters held before the call, and a second
  run on the same candidate, on the object as the first run left it and with the outputs
  of the first run as arguments, gives the results of the first run again. (The toolkit's
  regular-expression matching is taken to be a function of the compiled expression and
  the text.)
\<close>

theorem combined_Find_deterministic:
  "EDA_COMBINED_MATCHER_Find lib self aTerm out1 = EDA_COMBINED_MATCHER_Find lib self aTerm out2 \<and>
   (case EDA_COMBINED_MATCHER_Find lib self aTerm out of
      (ret, aMatchersTriggered, aPosition) \<Rightarrow>
        EDA_COMBINED_MATCHER_Find lib (apply_op lib (Op_Find aTerm out) self) aTerm
          (aMatchersTriggered, aPosition) = (ret, aMatchersTriggered, aPosition))"
  by (simp add: combined_Find_eq Let_def)

theorem combined_Find_deterministic_witness:
  "EDA_COMBINED_MATCHER_Find literal_lib (EDA_COMBINED_MATCHER_ctor literal_lib ''a?'') ''xa.ya?'' (0, 0)
     = (True, 3, 1) \<and>
   EDA_COMBINED_MATCHER_Find literal_lib (EDA_COMBINED_MATCHER_ctor literal_lib ''a?'') ''xa.ya?'' (3, 1)
     = (True, 3, 1)"
  using combined_Find_deterministic [of literal_lib "EDA_COMBINED_MATCHER_ctor literal_lib ''a?''"
          "''xa.ya?''" "(0, 0)" "(3, 1)" "(0, 0)"]
  by (simp add: run_defs)





text \<open>
  Claim C10 says that \<^verbatim>\<open>EDA_PATTERN_MATCH_REGEX::Find\<close> clamps the start offset of a
  match to \<open>INT_MAX\<close>, so that every value returned by any matcher's \<^verbatim>\<open>Find\<close> is
  \<^verbatim>\<open>EDA_PATTERN_NOT_FOUND\<close> or lies between 0 and \<open>INT_MAX\<close>. The code does not meet
  the second half. Take the candidate made of 2147483648 characters \<open>a\<close> followed by
  \<open>b\<close>, and the pattern \<open>b\<close>, whose first occurrence is at index 2147483648. The
  substring matcher, and the regex matcher whose expression is not valid, return what
  \<^verbatim>\<open>wxString::Find\<close> gives them without a clamp: a value that is neither
  \<^verbatim>\<open>EDA_PATTERN_NOT_FOUND\<close> nor between 0 and \<open>INT_MAX\<close> (the index itself here; in
  the program the \<^verbatim>\<open>int\<close> that the toolkit converts it to, which is negative). For the
  same candidate the regex matcher with a valid expression that matches at that offset
  returns \<open>INT_MAX\<close>: the clamp is on one path and missing on its siblings.
\<close>

theorem Find_unclamped_past_INT_MAX:
  "EDA_PATTERN_MATCH_SUBSTR_Find \<lparr>EDA_PATTERN_MATCH_SUBSTR.m_pattern = ''b''\<rparr>
     (replicate 2147483648 (CHR ''a'') @ ''b'') \<noteq> EDA_PATTERN_NOT_FOUND \<and>
   \<not> (0 \<le> EDA_PATTERN_MATCH_SUBSTR_Find \<lparr>EDA_PATTERN_MATCH_SUBSTR.m_pattern = ''b''\<rparr>
              (replicate 2147483648 (CHR ''a'') @ ''b'') \<and>
      EDA_PATTERN_MATCH_SUBSTR_Find \<lparr>EDA_PATTERN_MATCH_SUBSTR.m_pattern = ''b''\<rparr>
        (replicate 2147483648 (CHR ''a'') @ ''b'') \<le> INT_MAX) \<and>
   EDA_PATTERN_MATCH_REGEX_Find refusing_lib
     \<lparr>EDA_PATTERN_MATCH_REGEX.m_pattern = ''b'', m_regex = None\<rparr>
     (replicate 2147483648 (CHR ''a'') @ ''b'') \<noteq> EDA_PATTERN_NOT_FOUND \<and>
   \<not> (0 \<le> EDA_PATTERN_MATCH_REGEX_Find refusing_lib
              \<lparr>EDA_PATTERN_MATCH_REGEX.m_pattern = ''b'', m_regex = None\<rparr>
              (replicate 2147483648 (CHR ''a'') @ ''b'') \<and>
      EDA_PATTERN_MATCH_REGEX_Find refusing_lib
        \<lparr>EDA_PATTERN_MATCH_REGEX.m_pattern = ''b'', m_regex = None\<rparr>
        (replicate 2147483648 (CHR ''a'') @ ''b'') \<le> INT_MAX) \<and>
   EDA_PATTERN_MATCH_REGEX_Find far_lib
     \<lparr>EDA_PATTERN_MATCH_REGEX.m_pattern = ''b'', m_regex = Some ()\<rparr>
     (replicate 2147483648 (CHR ''a'') @ ''b'') = INT_MAX"
proof -
  have ne: "CHR ''a'' \<noteq> CHR ''b''" by simp
  have loc: "wxString_Find (replicate 2147483648 (CHR ''a'') @ ''b'') ''b'' = 2147483648"
    using wxString_Find_replicate [OF ne, of 2147483648] by simp
  have s: "EDA_PATTERN_MATCH_SUBSTR_Find \<lparr>EDA_PATTERN_MATCH_SUBSTR.m_pattern = ''b''\<rparr>
             (replicate 2147483648 (CHR ''a'') @ ''b'') = 2147483648"
    by (simp add: EDA_PATTERN_MATCH_SUBSTR_Find_def loc wxNOT_FOUND_def)
  have r: "EDA_PATTERN_MATCH_REGEX_Find refusing_lib
             \<lparr>EDA_PATTERN_MATCH_REGEX.m_pattern = ''b'', m_regex = None\<rparr>
             (replicate 2147483648 (CHR ''a'') @ ''b'') = 2147483648"
    by (simp add: EDA_PATTERN_MATCH_REGEX_Find_def loc wxNOT_FOUND_def)
  have c: "EDA_PATTERN_MATCH_REGEX_Find far_lib
             \<lparr>EDA_PATTERN_MATCH_REGEX.m_pattern = ''b'', m_regex = Some ()\<rparr>
             (replicate 2147483648 (CHR ''a'') @ ''b'') = INT_MAX"
    by (simp add: EDA_PATTERN_MATCH_REGEX_Find_def far_lib_def INT_MAX_def)
  show ?thesis
    unfolding s r c by (simp add: EDA_PATTERN_NOT_FOUND_def wxNOT_FOUND_def INT_MAX_def)
qed

end
